theory Spec2Isabelle
  imports Complex_Main
begin

section \<open>JavaScript values shared by the two classes\<close>

text \<open>
  The script \<^verbatim>\<open>src/script/map.js\<close> has two classes: \<^verbatim>\<open>Leaflet\<close>, a view over a
  map widget with a registry of markers, and \<^verbatim>\<open>Satellite\<close>, the tracked entity with
  its fetcher and its refresh timer. The repository's second copy of the script differs
  from it in the icon of a new marker and in the popup's name, which it does not put in
  upper case; the methods are otherwise the same, and the model follows
  \<^verbatim>\<open>src/script/map.js\<close>.

  Every method is a function from the state before the call to a pair: what the call
  produced (the thrown error on the left, the returned value on the right) and the state
  after it. A throw keeps whatever the method had already mutated.

  JavaScript numbers are modelled as \<^typ>\<open>real\<close> (identifiers and HTTP status codes as
  \<^typ>\<open>int\<close>): the methods only copy and compare them, so rounding plays no part, and
  \<^verbatim>\<open>NaN\<close> is kept out by the type. A field that is \<^verbatim>\<open>undefined\<close> is \<open>None\<close>.
  Output to the console is not modelled.
\<close>

datatype js_error =
    TypeError        \<comment> \<open>a property read on \<^verbatim>\<open>undefined\<close> or \<^verbatim>\<open>null\<close>, or a rejected \<^verbatim>\<open>fetch\<close>\<close>
  | SyntaxError      \<comment> \<open>\<^verbatim>\<open>result.json()\<close> on a body that is not JSON\<close>
  | InvalidLatLng    \<comment> \<open>the widget library refusing a coordinate that is not a number\<close>
  | Error string     \<comment> \<open>\<^verbatim>\<open>throw new Error(message)\<close> of the script itself\<close>

datatype js_ret =
    This             \<comment> \<open>\<^verbatim>\<open>return this\<close>\<close>
  | Undefined        \<comment> \<open>a bare \<^verbatim>\<open>return\<close>\<close>

type_synonym latlng = "real \<times> real"

section \<open>The tracked entity\<close>

record payload =
  j_id :: "int option"
  j_name :: "string option"
  j_altitude :: "real option"
  j_daynum :: "real option"
  j_footprint :: "real option"
  j_latitude :: "real option"
  j_longitude :: "real option"
  j_solar_lat :: "real option"
  j_solar_lon :: "real option"
  j_timestamp :: "real option"
  j_units :: "string option"
  j_velocity :: "real option"
  j_visibility :: "string option"

record satellite =
  ident :: "int option"
  url :: string
  name :: "string option"
  altitude :: "real option"
  daynum :: "real option"
  footprint :: "real option"
  latitude :: "real option"
  longitude :: "real option"
  solar_lat :: "real option"
  solar_lon :: "real option"
  timestamp :: "real option"
  units :: "string option"
  velocity :: "real option"
  visibility :: "string option"
  fetchResponse :: "payload option"
  errorBool :: "bool option"
  errorCode :: "int option"
  errorText :: "string option"
  autoUpdater :: "nat option"

section \<open>The map widget and the view\<close>

text \<open>
  The widget is the third-party mapping library, which is not part of the repository. It
  is modelled as the interface the script uses: a marker is created, put on the map, has
  its icon exchanged and a popup bound; a layer is taken off the map; the map is centred
  at a zoom level and asked for its zoom level. Centring is taken as exact: the library's
  rounding of the pan to whole pixels and its animation are not modelled. Marker objects
  live in a store
  (\<open>heap\<close>), addressed by their position in it, because the same object is held
  both by the widget's layers and by the registry of the view.
\<close>

record leaflet_icon =
  iconUrl :: string
  iconSize :: "nat \<times> nat"
  zIndexOffset :: int

record popup =
  p_name :: string
  p_latitude :: real
  p_longitude :: real
  p_altitude :: real
  p_velocity :: real
  p_unit :: "char option"
  p_visibility :: "string option"
  p_timestamp :: "real option"

record marker_obj =
  latlng :: latlng
  icon :: leaflet_icon
  title :: "string option"
  riseOnHover :: bool
  riseOffset :: nat
  bound_popup :: "popup option"

datatype layer = TileLayer string | MarkerLayer nat

record widget =
  center :: latlng
  zoom :: real
  minZoom :: "real option"
  maxZoom :: "real option"
  layers :: "layer list"

record marker_record =
  m_id :: "int option"
  m_marker :: nat

record leaflet =
  mapL :: widget
  markers :: "marker_record list"
  satelliteIndex :: nat
  heap :: "marker_obj list"

subsection \<open>Icons\<close>

definition digit :: "nat \<Rightarrow> char" where
  "digit d = ''0123456789'' ! d"

function decimal :: "nat \<Rightarrow> string" where
  "decimal n = (if n < 10 then [digit n] else decimal (n div 10) @ [digit (n mod 10)])"
  by pat_completeness auto
termination
  by (relation "measure (\<lambda>n. n)") auto

declare decimal.simps [simp del]

text \<open>\<^verbatim>\<open>icons.dot\<close>, the one icon the class keeps.\<close>

definition icons_dot :: leaflet_icon where
  "icons_dot = \<lparr>iconUrl = ''./public/dot.png'', iconSize = (20, 20), zIndexOffset = 1000\<rparr>"

text \<open>
  The icon \<^verbatim>\<open>addSatellite\<close> builds for a new marker. \<open>github\<close> stands for
  \<^verbatim>\<open>window.location.href.includes('github')\<close>.
\<close>

definition satellite_icon :: "bool \<Rightarrow> nat \<Rightarrow> leaflet_icon" where
  "satellite_icon github i =
     \<lparr>iconUrl = (if github then ''SatTrack/public/satellite'' @ decimal i @ ''.png''
                 else ''../public/satellite'' @ decimal i @ ''.png''),
      iconSize = (50, 50), zIndexOffset = - 1000\<rparr>"

subsection \<open>The widget's operations\<close>

definition addLayer :: "widget \<Rightarrow> layer \<Rightarrow> widget" where
  "addLayer w l = (if l \<in> set (layers w) then w else w\<lparr>layers := layers w @ [l]\<rparr>)"

definition removeLayer :: "widget \<Rightarrow> layer \<Rightarrow> widget" where
  "removeLayer w l = w\<lparr>layers := filter (\<lambda>k. k \<noteq> l) (layers w)\<rparr>"

definition setView :: "widget \<Rightarrow> latlng \<Rightarrow> real \<Rightarrow> widget" where
  "setView w c z = w\<lparr>center := c, zoom := z\<rparr>"

definition getZoom :: "widget \<Rightarrow> real" where
  "getZoom w = zoom w"

definition setIcon :: "marker_obj list \<Rightarrow> nat \<Rightarrow> leaflet_icon \<Rightarrow> marker_obj list" where
  "setIcon hp h i = (if h < length hp then hp[h := (hp ! h)\<lparr>icon := i\<rparr>] else hp)"

definition bindPopup :: "marker_obj list \<Rightarrow> nat \<Rightarrow> popup \<Rightarrow> marker_obj list" where
  "bindPopup hp h p = (if h < length hp then hp[h := (hp ! h)\<lparr>bound_popup := Some p\<rparr>] else hp)"

definition getLatLng :: "marker_obj list \<Rightarrow> nat \<Rightarrow> latlng option" where
  "getLatLng hp h = (if h < length hp then Some (latlng (hp ! h)) else None)"

text \<open>
  Setting a zoom bound on a map that already has a view moves the zoom level onto the
  bound when it lies beyond it.
\<close>

definition setMinZoom :: "widget \<Rightarrow> real \<Rightarrow> widget" where
  "setMinZoom w z =
     (let w' = w\<lparr>minZoom := Some z\<rparr>
      in if getZoom w' < z then w'\<lparr>zoom := z\<rparr> else w')"

definition setMaxZoom :: "widget \<Rightarrow> real \<Rightarrow> widget" where
  "setMaxZoom w z =
     (let w' = w\<lparr>maxZoom := Some z\<rparr>
      in if z < getZoom w' then w'\<lparr>zoom := z\<rparr> else w')"

text \<open>
  \<^verbatim>\<open>#initializeMap\<close>: the widget centred at the given point and zoom, one tile layer,
  and the zoom bounds 2 and 18, set in this order.
\<close>

definition tile_url :: string where
  "tile_url = ''https://{s}.tile.openstreetmap.org/{z}/{x}/{y}.png''"

definition initializeMap :: "real \<Rightarrow> real \<Rightarrow> real \<Rightarrow> widget" where
  "initializeMap lat lon z =
     (let w0 = setView \<lparr>center = (0, 0), zoom = 0, minZoom = None, maxZoom = None, layers = []\<rparr>
                       (lat, lon) z;
          w1 = addLayer w0 (TileLayer tile_url)
      in setMaxZoom (setMinZoom w1 2) 18)"

text \<open>The constructor: an empty registry, icon index 0, and the initialised widget.\<close>

definition new_Leaflet :: "real \<Rightarrow> real \<Rightarrow> real \<Rightarrow> leaflet" where
  "new_Leaflet lat lon z =
     \<lparr>mapL = initializeMap lat lon z, markers = [], satelliteIndex = 0, heap = []\<rparr>"

subsection \<open>The methods of the view\<close>

text \<open>
  \<^verbatim>\<open>replaceSatelliteWithDot\<close>: every record whose identifier is the satellite's gets the
  dot icon (\<^verbatim>\<open>filter\<close>, then \<^verbatim>\<open>setIcon\<close> on each). An array is always truthy, so the
  test on the filtered array never skips the loop.
\<close>

definition replaceSatelliteWithDot :: "leaflet \<Rightarrow> satellite \<Rightarrow> leaflet" where
  "replaceSatelliteWithDot v s =
     (let ms = filter (\<lambda>m. m_id m = ident s) (markers v)
      in v\<lparr>heap := fold (\<lambda>m hp. setIcon hp (m_marker m) icons_dot) ms (heap v)\<rparr>)"

text \<open>
  \<^verbatim>\<open>String.prototype.toUpperCase\<close>, on the letters a to z; any other character is kept.
\<close>

definition toUpperCase_char :: "char \<Rightarrow> char" where
  "toUpperCase_char c =
     (case map_of (zip ''abcdefghijklmnopqrstuvwxyz'' ''ABCDEFGHIJKLMNOPQRSTUVWXYZ'') c of
        None \<Rightarrow> c
      | Some u \<Rightarrow> u)"

definition toUpperCase :: "string \<Rightarrow> string" where
  "toUpperCase str = map toUpperCase_char str"

text \<open>
  The popup's template reads \<^verbatim>\<open>name.toUpperCase()\<close>, \<^verbatim>\<open>toFixed(2)\<close> of latitude,
  longitude, altitude and velocity, and \<^verbatim>\<open>units[0]\<close>: each throws a TypeError on
  \<^verbatim>\<open>undefined\<close>. Visibility and timestamp are only interpolated. The popup is kept as
  the values the template is filled with; how the host prints a number is left out.
\<close>

definition popup_of :: "satellite \<Rightarrow> popup option" where
  "popup_of s =
     (case (name s, latitude s, longitude s, altitude s, velocity s, units s) of
        (Some n, Some la, Some lo, Some al, Some ve, Some u) \<Rightarrow>
          Some \<lparr>p_name = toUpperCase n, p_latitude = la, p_longitude = lo, p_altitude = al,
                p_velocity = ve, p_unit = (case u of [] \<Rightarrow> None | c # _ \<Rightarrow> Some c),
                p_visibility = visibility s, p_timestamp = timestamp s\<rparr>
      | _ \<Rightarrow> None)"

text \<open>
  \<^verbatim>\<open>addSatellite\<close>: demote the records of the same identifier if there is one, create
  the marker and put it on the map, bind the popup, append the record. The widget library
  refuses a coordinate that is not a number before the marker exists; a TypeError of the
  popup's template comes after the marker is on the map and before the record is
  appended.
\<close>

definition addSatellite :: "bool \<Rightarrow> leaflet \<Rightarrow> satellite \<Rightarrow> (js_error + js_ret) \<times> leaflet" where
  "addSatellite github v s =
     (let v1 = (if find (\<lambda>m. m_id m = ident s) (markers v) \<noteq> None
                then replaceSatelliteWithDot v s else v)
      in case (latitude s, longitude s) of
           (Some la, Some lo) \<Rightarrow>
             (let h = length (heap v1);
                  obj = \<lparr>latlng = (la, lo), icon = satellite_icon github (satelliteIndex v1),
                         title = name s, riseOnHover = True, riseOffset = 250,
                         bound_popup = None\<rparr>;
                  v2 = v1\<lparr>heap := heap v1 @ [obj], mapL := addLayer (mapL v1) (MarkerLayer h)\<rparr>
              in case popup_of s of
                   None \<Rightarrow> (Inl TypeError, v2)
                 | Some p \<Rightarrow>
                     (let v3 = v2\<lparr>heap := bindPopup (heap v2) h p\<rparr>
                      in (Inr This,
                          v3\<lparr>markers := markers v3 @ [\<lparr>m_id = ident s, m_marker = h\<rparr>]\<rparr>)))
         | _ \<Rightarrow> (Inl InvalidLatLng, v1))"

text \<open>
  \<^verbatim>\<open>Array.prototype.findIndex\<close> gives \<open>-1\<close> when nothing matches, and
  \<^verbatim>\<open>splice(i, 1)\<close> counts a negative \<open>i\<close> from the end.
\<close>

fun findIndex :: "('a \<Rightarrow> bool) \<Rightarrow> 'a list \<Rightarrow> int" where
  "findIndex P [] = - 1"
| "findIndex P (x # xs) =
     (if P x then 0 else (let i = findIndex P xs in if i < 0 then - 1 else i + 1))"

definition splice1 :: "'a list \<Rightarrow> int \<Rightarrow> 'a list" where
  "splice1 xs i =
     (let n = int (length xs);
          start = (if i < 0 then max (n + i) 0 else min i n)
      in take (nat start) xs @ drop (nat start + 1) xs)"

text \<open>
  \<^verbatim>\<open>removeSatellite\<close>: \<^verbatim>\<open>find\<close> gives \<^verbatim>\<open>undefined\<close> when no record matches, and
  reading \<^verbatim>\<open>.marker\<close> of it throws a TypeError before anything is changed. Otherwise the
  first matching record's marker is taken off the map and that record is spliced out.
\<close>

definition removeSatellite :: "leaflet \<Rightarrow> satellite \<Rightarrow> (js_error + js_ret) \<times> leaflet" where
  "removeSatellite v s =
     (case find (\<lambda>m. m_id m = ident s) (markers v) of
        None \<Rightarrow> (Inl TypeError, v)
      | Some r \<Rightarrow>
          (let v1 = v\<lparr>mapL := removeLayer (mapL v) (MarkerLayer (m_marker r))\<rparr>
           in (Inr This,
               v1\<lparr>markers := splice1 (markers v1)
                                       (findIndex (\<lambda>m. m_id m = ident s) (markers v1))\<rparr>)))"

text \<open>
  \<^verbatim>\<open>zoomToSatellite\<close>: the guard reads \<^verbatim>\<open>.marker\<close> of what \<^verbatim>\<open>find\<close> gave, so on a
  missing record the TypeError of that read comes first. A record's marker is an object,
  hence truthy, so the guard's own
  \<^verbatim>\<open>Error('Satellite not found. Could not reposition map.')\<close> is raised only for a
  record whose marker is not in the store, which no method of the view produces.
\<close>

definition zoomToSatellite :: "leaflet \<Rightarrow> satellite \<Rightarrow> (js_error + js_ret) \<times> leaflet" where
  "zoomToSatellite v s =
     (case find (\<lambda>m. m_id m = ident s) (markers v) of
        None \<Rightarrow> (Inl TypeError, v)
      | Some r \<Rightarrow>
          (case getLatLng (heap v) (m_marker r) of
             None \<Rightarrow> (Inl (Error ''Satellite not found. Could not reposition map.''), v)
           | Some c \<Rightarrow> (Inr This, v\<lparr>mapL := setView (mapL v) c (getZoom (mapL v))\<rparr>)))"

section \<open>The fetcher\<close>

text \<open>
  What \<^verbatim>\<open>await fetch(this.url)\<close> gives: either the request is rejected, or a response
  arrives with its status, its status text and a body. The body is not JSON, or it is the
  JSON value \<^verbatim>\<open>null\<close>, or it is a JSON value whose keys can be read: the service's
  object, with any key that is missing read as \<^verbatim>\<open>undefined\<close>. The response's
  \<^verbatim>\<open>ok\<close> is true for a status from 200 to 299.
\<close>

datatype json_body = NotJson | JsonNull | JsonObject payload

record response =
  status :: int
  statusText :: string
  body :: json_body

datatype fetched = Rejected | Response response

definition ok :: "response \<Rightarrow> bool" where
  "ok r = (200 \<le> status r \<and> status r \<le> 299)"

text \<open>
  \<^verbatim>\<open>fetchSatellite\<close>: on a response that is not ok, the three error fields are set and
  the method leaves through a bare \<^verbatim>\<open>return\<close>; otherwise the thirteen fields are read
  from the body, the body is kept, and the method returns \<^verbatim>\<open>this\<close>. A body that
  is not JSON makes \<^verbatim>\<open>result.json()\<close> fail, and reading \<^verbatim>\<open>json['id']\<close> of
  \<^verbatim>\<open>null\<close> throws a TypeError, both before any field is assigned.
\<close>

definition fetchSatellite :: "satellite \<Rightarrow> fetched \<Rightarrow> (js_error + js_ret) \<times> satellite" where
  "fetchSatellite s f =
     (case f of
        Rejected \<Rightarrow> (Inl TypeError, s)
      | Response result \<Rightarrow>
          if \<not> ok result then
            (Inr Undefined,
             s\<lparr>errorBool := Some True, errorCode := Some (status result),
               errorText := Some (statusText result)\<rparr>)
          else
            (case body result of
               NotJson \<Rightarrow> (Inl SyntaxError, s)
             | JsonNull \<Rightarrow> (Inl TypeError, s)
             | JsonObject json \<Rightarrow>
                 (Inr This,
                  s\<lparr>ident := j_id json, name := j_name json, altitude := j_altitude json,
                    daynum := j_daynum json, footprint := j_footprint json,
                    latitude := j_latitude json, longitude := j_longitude json,
                    solar_lat := j_solar_lat json, solar_lon := j_solar_lon json,
                    timestamp := j_timestamp json, units := j_units json,
                    velocity := j_velocity json, visibility := j_visibility json,
                    fetchResponse := Some json\<rparr>)))"

text \<open>The constructor: only the identifier and the URL are set.\<close>

definition new_Satellite :: "int \<Rightarrow> string \<Rightarrow> satellite" where
  "new_Satellite i u =
     \<lparr>ident = Some i, url = u, name = None, altitude = None, daynum = None, footprint = None,
      latitude = None, longitude = None, solar_lat = None, solar_lon = None,
      timestamp = None, units = None, velocity = None, visibility = None,
      fetchResponse = None, errorBool = None, errorCode = None, errorText = None,
      autoUpdater = None\<rparr>"

section \<open>The refresh timer\<close>

text \<open>
  The host's table of repeating timers. \<^verbatim>\<open>setInterval\<close> hands out the next handle and
  records the callback and its delay; \<^verbatim>\<open>clearInterval\<close> drops the timer of a handle and
  does nothing for \<^verbatim>\<open>undefined\<close> or for a handle that is not active. The callback of
  \<^verbatim>\<open>autoUpdate\<close> closes over the satellite and the view, so it is recorded as
  \<open>Tick self view\<close>, both given as references; any other callback of the page is
  \<open>Other\<close>.
\<close>

datatype callback = Tick nat nat | Other

record timer =
  t_id :: nat
  t_callback :: callback
  t_interval :: real

record timers =
  next_id :: nat
  active :: "timer list"

definition setInterval :: "timers \<Rightarrow> callback \<Rightarrow> real \<Rightarrow> nat \<times> timers" where
  "setInterval T cb ms =
     (next_id T,
      T\<lparr>next_id := next_id T + 1,
        active := active T @ [\<lparr>t_id = next_id T, t_callback = cb, t_interval = ms\<rparr>]\<rparr>)"

definition clearInterval :: "timers \<Rightarrow> nat option \<Rightarrow> timers" where
  "clearInterval T h =
     (case h of None \<Rightarrow> T
      | Some i \<Rightarrow> T\<lparr>active := filter (\<lambda>t. t_id t \<noteq> i) (active T)\<rparr>)"

text \<open>
  \<^verbatim>\<open>autoUpdate(trueOrFalse, interval, map)\<close> of the satellite whose reference is
  \<open>self\<close>. The two guards come first, whatever \<^verbatim>\<open>trueOrFalse\<close> is. The third guard,
  \<^verbatim>\<open>!typeof trueOrFalse === 'boolean'\<close>, compares \<^verbatim>\<open>false\<close> with a string and never
  throws. Then the stop branch clears the timer of the stored handle and returns; the
  start branch clears it as well, schedules the tick and stores the new handle.
\<close>

definition autoUpdate ::
  "nat \<Rightarrow> satellite \<times> timers \<Rightarrow> bool \<Rightarrow> real \<Rightarrow> nat option \<Rightarrow> (js_error + js_ret) \<times> (satellite \<times> timers)"
where
  "autoUpdate self st trueOrFalse interval view =
     (let s = fst st; T = snd st in
      if interval < 1000 then
        (Inl (Error ''Interval must be at least 1000 milliseconds.''), st)
      else case view of
        None \<Rightarrow> (Inl (Error ''Map is not given.''), st)
      | Some m \<Rightarrow>
          if \<not> trueOrFalse then (Inr This, (s, clearInterval T (autoUpdater s)))
          else
            (let T1 = clearInterval T (autoUpdater s);
                 (h, T2) = setInterval T1 (Tick self m) interval
             in (Inr This, (s\<lparr>autoUpdater := Some h\<rparr>, T2))))"

text \<open>
  The timers of the table that are ticks of the satellite \<open>self\<close>, and the state of its
  loop as the handle it stores shows it: running at an interval while the handle names an
  active timer, stopped otherwise.
\<close>

definition ticks_of :: "nat \<Rightarrow> timers \<Rightarrow> timer list" where
  "ticks_of self T =
     filter (\<lambda>t. case t_callback t of Tick o' _ \<Rightarrow> o' = self | Other \<Rightarrow> False) (active T)"

datatype loop_state = Stopped | Running real

definition loop_state :: "satellite \<times> timers \<Rightarrow> loop_state" where
  "loop_state st =
     (case autoUpdater (fst st) of
        None \<Rightarrow> Stopped
      | Some h \<Rightarrow>
          (case find (\<lambda>t. t_id t = h) (active (snd st)) of
             None \<Rightarrow> Stopped
           | Some t \<Rightarrow> Running (t_interval t)))"

text \<open>A sequence of calls to \<^verbatim>\<open>autoUpdate\<close>; a call that throws leaves its state to the next.\<close>

record call =
  c_trueOrFalse :: bool
  c_interval :: real
  c_view :: "nat option"

fun run_calls :: "nat \<Rightarrow> satellite \<times> timers \<Rightarrow> call list \<Rightarrow> satellite \<times> timers" where
  "run_calls self st [] = st"
| "run_calls self st (c # cs) =
     run_calls self (snd (autoUpdate self st (c_trueOrFalse c) (c_interval c) (c_view c))) cs"

section \<open>Sequences of calls, and the states the methods keep\<close>

text \<open>
  A sequence of \<^verbatim>\<open>addSatellite\<close> calls on one view, each of which returns; the result
  is \<open>None\<close> as soon as one call throws.
\<close>

fun add_calls :: "bool \<Rightarrow> leaflet \<Rightarrow> satellite list \<Rightarrow> leaflet option" where
  "add_calls github v [] = Some v"
| "add_calls github v (s # ss) =
     (case addSatellite github v s of
        (Inl e, v') \<Rightarrow> None
      | (Inr r, v') \<Rightarrow> add_calls github v' ss)"

text \<open>The view after the first statement of \<^verbatim>\<open>addSatellite\<close>, the demotion.\<close>

definition demoted :: "leaflet \<Rightarrow> satellite \<Rightarrow> leaflet" where
  "demoted v s =
     (if find (\<lambda>m. m_id m = ident s) (markers v) \<noteq> None
      then replaceSatelliteWithDot v s else v)"

text \<open>Every record of the registry refers to a marker object of the store.\<close>

definition handles_valid :: "leaflet \<Rightarrow> bool" where
  "handles_valid v = list_all (\<lambda>r. m_marker r < length (heap v)) (markers v)"

text \<open>The records of the registry that carry a given identifier, in insertion order.\<close>

definition records_of :: "int option \<Rightarrow> leaflet \<Rightarrow> marker_record list" where
  "records_of i v = filter (\<lambda>r. m_id r = i) (markers v)"

definition icon_of :: "leaflet \<Rightarrow> marker_record \<Rightarrow> leaflet_icon" where
  "icon_of v r = icon (heap v ! m_marker r)"

text \<open>
  The loop of satellite \<open>self\<close> has at most one tick in the table, and that tick is the one
  whose handle the satellite stores.
\<close>

definition one_stream :: "nat \<Rightarrow> satellite \<times> timers \<Rightarrow> bool" where
  "one_stream self st =
     (length (ticks_of self (snd st)) \<le> 1 \<and>
      list_all (\<lambda>t. autoUpdater (fst st) = Some (t_id t)) (ticks_of self (snd st)))"

section \<open>Concrete inputs\<close>

definition iss :: satellite where
  "iss = (new_Satellite 25544 ''https://api.wheretheiss.at/v1/satellites/25544'')
           \<lparr>name := Some ''iss'', altitude := Some 420, latitude := Some (512 / 10),
            longitude := Some (- 1 / 10), timestamp := Some 1700000000,
            units := Some ''kilometers'', velocity := Some 27000,
            visibility := Some ''daylight''\<rparr>"

definition iss_popup :: popup where
  "iss_popup =
     \<lparr>p_name = ''ISS'', p_latitude = 512 / 10, p_longitude = - 1 / 10, p_altitude = 420,
      p_velocity = 27000, p_unit = Some CHR ''k'', p_visibility = Some ''daylight'',
      p_timestamp = Some 1700000000\<rparr>"

definition iss_marker :: "leaflet_icon \<Rightarrow> marker_obj" where
  "iss_marker i =
     \<lparr>latlng = (512 / 10, - 1 / 10), icon = i, title = Some ''iss'', riseOnHover = True,
      riseOffset = 250, bound_popup = Some iss_popup\<rparr>"

definition other_sat :: satellite where
  "other_sat = new_Satellite 7 ''https://api.wheretheiss.at/v1/satellites/7''"

definition view0 :: leaflet where
  "view0 = new_Leaflet (207502 / 10000) (1147655 / 10000) 3"

definition view1 :: leaflet where
  "view1 = snd (addSatellite False view0 iss)"

definition view2 :: leaflet where
  "view2 = snd (addSatellite False view1 iss)"

definition not_found :: response where
  "not_found = \<lparr>status = 404, statusText = ''Not Found'', body = NotJson\<rparr>"

definition timers0 :: timers where
  "timers0 = \<lparr>next_id = 1, active = [\<lparr>t_id = 0, t_callback = Other, t_interval = 20\<rparr>]\<rparr>"

definition loop0 :: "satellite \<times> timers" where
  "loop0 = (iss, timers0)"

definition loop1 :: "satellite \<times> timers" where
  "loop1 = snd (autoUpdate 0 loop0 True 15000 (Some 0))"

definition loop2 :: "satellite \<times> timers" where
  "loop2 = snd (autoUpdate 0 loop1 True 5000 (Some 0))"

section \<open>Facts about the view\<close>


lemma length_setIcon [simp]: "length (setIcon hp h i) = length hp"
  by (simp add: setIcon_def)

lemma icon_setIcon:
  "k < length hp \<Longrightarrow> icon (setIcon hp h i ! k) = (if k = h then i else icon (hp ! k))"
  by (simp add: setIcon_def nth_list_update)

lemma length_demote [simp]:
  "length (fold (\<lambda>m hp. setIcon hp (m_marker m) d) ms hp) = length hp"
  by (induction ms arbitrary: hp) simp_all

lemma icon_demote:
  "k < length hp \<Longrightarrow>
   icon (fold (\<lambda>m hp. setIcon hp (m_marker m) d) ms hp ! k) =
     (if k \<in> m_marker ` set ms then d else icon (hp ! k))"
proof (induction ms arbitrary: hp)
  case Nil
  then show ?case by simp
next
  case (Cons m ms)
  have "k < length (setIcon hp (m_marker m) d)" using Cons.prems by simp
  from Cons.IH [OF this] show ?case
    using Cons.prems by (auto simp: icon_setIcon)
qed

lemma replaceSatelliteWithDot_frame [simp]:
  "markers (replaceSatelliteWithDot v s) = markers v"
  "mapL (replaceSatelliteWithDot v s) = mapL v"
  "satelliteIndex (replaceSatelliteWithDot v s) = satelliteIndex v"
  "length (heap (replaceSatelliteWithDot v s)) = length (heap v)"
  by (simp_all add: replaceSatelliteWithDot_def Let_def)

lemma replaceSatelliteWithDot_icon:
  "k < length (heap v) \<Longrightarrow>
   icon (heap (replaceSatelliteWithDot v s) ! k) =
     (if k \<in> m_marker ` set (records_of (ident s) v) then icons_dot else icon (heap v ! k))"
  by (simp add: replaceSatelliteWithDot_def Let_def records_of_def icon_demote)

lemma demoted_frame [simp]:
  "markers (demoted v s) = markers v"
  "mapL (demoted v s) = mapL v"
  "satelliteIndex (demoted v s) = satelliteIndex v"
  "length (heap (demoted v s)) = length (heap v)"
  by (simp_all add: demoted_def)

lemma records_of_Nil: "find (\<lambda>m. m_id m = i) (markers v) = None \<Longrightarrow> records_of i v = []"
  by (auto simp: records_of_def find_None_iff filter_empty_conv)

lemma demoted_icon:
  "k < length (heap v) \<Longrightarrow>
   icon (heap (demoted v s) ! k) =
     (if k \<in> m_marker ` set (records_of (ident s) v) then icons_dot else icon (heap v ! k))"
  by (auto simp: demoted_def replaceSatelliteWithDot_icon records_of_Nil)

lemma addSatellite_Inr:
  assumes "addSatellite g v s = (Inr r, v')"
  shows "\<exists>la lo p. latitude s = Some la \<and> longitude s = Some lo \<and> popup_of s = Some p \<and>
     v' = (demoted v s)\<lparr>heap := bindPopup (heap (demoted v s) @
              [\<lparr>latlng = (la, lo), icon = satellite_icon g (satelliteIndex v),
                title = name s, riseOnHover = True, riseOffset = 250, bound_popup = None\<rparr>])
              (length (heap v)) p,
          mapL := addLayer (mapL v) (MarkerLayer (length (heap v))),
          markers := markers v @ [\<lparr>m_id = ident s, m_marker = length (heap v)\<rparr>]\<rparr>"
  using assms
  by (auto simp: addSatellite_def Let_def demoted_def split: option.splits)


lemma icon_bindPopup [simp]: "icon (bindPopup hp h p ! k) = icon (hp ! k)"
  by (cases "k = h") (simp_all add: bindPopup_def)

lemma length_bindPopup [simp]: "length (bindPopup hp h p) = length hp"
  by (simp add: bindPopup_def)

lemma addSatellite_Inr_markers:
  "addSatellite g v s = (Inr r, v') \<Longrightarrow>
   markers v' = markers v @ [\<lparr>m_id = ident s, m_marker = length (heap v)\<rparr>]"
  by (drule addSatellite_Inr) auto

lemma addSatellite_Inr_heap_length:
  "addSatellite g v s = (Inr r, v') \<Longrightarrow> length (heap v') = Suc (length (heap v))"
  by (drule addSatellite_Inr) auto

lemma addSatellite_Inr_index:
  "addSatellite g v s = (Inr r, v') \<Longrightarrow> satelliteIndex v' = satelliteIndex v"
  by (drule addSatellite_Inr) auto

lemma addSatellite_Inr_new_icon:
  "addSatellite g v s = (Inr r, v') \<Longrightarrow>
   icon (heap v' ! length (heap v)) = satellite_icon g (satelliteIndex v)"
  by (drule addSatellite_Inr) (auto simp: nth_append)

lemma addSatellite_Inr_old_icon:
  "addSatellite g v s = (Inr r, v') \<Longrightarrow> k < length (heap v) \<Longrightarrow>
   icon (heap v' ! k) =
     (if k \<in> m_marker ` set (records_of (ident s) v) then icons_dot else icon (heap v ! k))"
  by (drule addSatellite_Inr) (auto simp: nth_append demoted_icon)

lemma addSatellite_Inr_valid:
  "addSatellite g v s = (Inr r, v') \<Longrightarrow> handles_valid v \<Longrightarrow> handles_valid v'"
  by (auto simp: handles_valid_def list_all_iff addSatellite_Inr_markers
      addSatellite_Inr_heap_length less_Suc_eq)

subsection \<open>Removing and centring\<close>

lemma findIndex_takeWhile:
  "\<exists>x\<in>set xs. P x \<Longrightarrow> findIndex P xs = int (length (takeWhile (\<lambda>x. \<not> P x) xs))"
proof (induction xs)
  case Nil
  then show ?case by simp
next
  case (Cons a xs)
  show ?case
  proof (cases "P a")
    case True
    then show ?thesis by simp
  next
    case False
    with Cons.prems have "\<exists>x\<in>set xs. P x" by simp
    from Cons.IH [OF this] False show ?thesis by (simp add: Let_def)
  qed
qed

lemma findIndex_absent: "\<not> (\<exists>x\<in>set xs. P x) \<Longrightarrow> findIndex P xs = - 1"
  by (induction xs) (auto simp: Let_def)

lemma splice1_findIndex:
  assumes "\<exists>x\<in>set xs. P x"
  shows "splice1 xs (findIndex P xs) =
           takeWhile (\<lambda>x. \<not> P x) xs @ tl (dropWhile (\<lambda>x. \<not> P x) xs)"
proof -
  let ?n = "length (takeWhile (\<lambda>x. \<not> P x) xs)"
  have le: "?n \<le> length xs" by (rule length_takeWhile_le)
  have tk: "take ?n xs = takeWhile (\<lambda>x. \<not> P x) xs"
    by (metis takeWhile_eq_take)
  have dr: "drop ?n xs = dropWhile (\<lambda>x. \<not> P x) xs"
    by (metis dropWhile_eq_drop)
  have "drop (Suc ?n) xs = tl (drop ?n xs)"
    by (simp add: drop_Suc tl_drop)
  then show ?thesis
    using le by (simp add: splice1_def findIndex_takeWhile [OF assms] Let_def tk dr min_def)
qed

lemma filter_without_first:
  "filter P (takeWhile (\<lambda>x. \<not> P x) xs @ tl (dropWhile (\<lambda>x. \<not> P x) xs)) = tl (filter P xs)"
  by (induction xs) auto

lemma find_Some_exists: "find P xs = Some r \<Longrightarrow> \<exists>x\<in>set xs. P x"
  by (auto simp: find_Some_iff)

text \<open>
  When a record matches, \<^verbatim>\<open>removeSatellite\<close> takes the first matching record's marker off
  the map and drops that one record: the records of the identifier are the former ones
  without the first.
\<close>

lemma removeSatellite_found:
  assumes "find (\<lambda>m. m_id m = ident s) (markers v) = Some r"
  shows "fst (removeSatellite v s) = Inr This"
    and "mapL (snd (removeSatellite v s)) = removeLayer (mapL v) (MarkerLayer (m_marker r))"
    and "records_of (ident s) (snd (removeSatellite v s)) = tl (records_of (ident s) v)"
    and "heap (snd (removeSatellite v s)) = heap v"
proof -
  have ex: "\<exists>x\<in>set (markers v). m_id x = ident s"
    using assms by (rule find_Some_exists)
  show "fst (removeSatellite v s) = Inr This"
    and "mapL (snd (removeSatellite v s)) = removeLayer (mapL v) (MarkerLayer (m_marker r))"
    and "heap (snd (removeSatellite v s)) = heap v"
    using assms by (simp_all add: removeSatellite_def Let_def)
  have "markers (snd (removeSatellite v s)) =
          takeWhile (\<lambda>x. \<not> m_id x = ident s) (markers v) @
          tl (dropWhile (\<lambda>x. \<not> m_id x = ident s) (markers v))"
    using assms by (simp add: removeSatellite_def Let_def splice1_findIndex [OF ex])
  then show "records_of (ident s) (snd (removeSatellite v s)) = tl (records_of (ident s) v)"
    unfolding records_of_def by (simp only: filter_without_first)
qed

lemma removeLayer_absent: "l \<notin> set (layers (removeLayer w l))"
  by (simp add: removeLayer_def)

text \<open>
  When a record matches and its marker is in the store, \<^verbatim>\<open>zoomToSatellite\<close> returns
  and changes the centre of the widget to the coordinates of the first matching record's
  marker, and nothing else: the zoom level, the layers, the registry and the store stay.
\<close>

lemma zoomToSatellite_found:
  assumes "find (\<lambda>m. m_id m = ident s) (markers v) = Some r"
    and "m_marker r < length (heap v)"
  shows "zoomToSatellite v s =
           (Inr This, v\<lparr>mapL := (mapL v)\<lparr>center := latlng (heap v ! m_marker r)\<rparr>\<rparr>)"
  using assms by (simp add: zoomToSatellite_def getLatLng_def setView_def getZoom_def)

lemma zoomToSatellite_absent:
  assumes "find (\<lambda>m. m_id m = ident s) (markers v) = None"
  shows "zoomToSatellite v s = (Inl TypeError, v)"
  using assms by (simp add: zoomToSatellite_def)

subsection \<open>The constructor's zoom and the popup's name\<close>

lemma initializeMap_zoom:
  "zoom (initializeMap lat lon z) = (if z < 2 then 2 else if 18 < z then 18 else z)"
  by (simp add: initializeMap_def setView_def addLayer_def setMinZoom_def setMaxZoom_def
      getZoom_def Let_def)

lemma initializeMap_below_bound: "zoom (initializeMap 0 0 1) = 2"
  by (simp add: initializeMap_zoom)

lemma toUpperCase_iss: "toUpperCase ''iss'' = ''ISS''"
  by (simp add: toUpperCase_def toUpperCase_char_def)

subsection \<open>The concrete views\<close>

lemmas view_eval_defs =
  view0_def iss_def new_Satellite_def new_Leaflet_def initializeMap_def addSatellite_def
  replaceSatelliteWithDot_def setIcon_def icons_dot_def
  setView_def getZoom_def setMinZoom_def setMaxZoom_def addLayer_def popup_of_def
  toUpperCase_def toUpperCase_char_def satellite_icon_def decimal.simps digit_def
  bindPopup_def tile_url_def Let_def

lemma view0_eval:
  "view0 =
     \<lparr>mapL = \<lparr>center = (207502 / 10000, 1147655 / 10000), zoom = 3, minZoom = Some 2,
               maxZoom = Some 18, layers = [TileLayer tile_url]\<rparr>,
      markers = [], satelliteIndex = 0, heap = []\<rparr>"
  by (simp add: view_eval_defs)

lemma add_view0:
  "addSatellite False view0 iss =
     (Inr This,
      \<lparr>mapL = \<lparr>center = (207502 / 10000, 1147655 / 10000), zoom = 3, minZoom = Some 2,
                maxZoom = Some 18, layers = [TileLayer tile_url, MarkerLayer 0]\<rparr>,
       markers = [\<lparr>m_id = Some 25544, m_marker = 0\<rparr>], satelliteIndex = 0,
       heap = [iss_marker (satellite_icon False 0)]\<rparr>)"
  by (simp add: view_eval_defs iss_marker_def iss_popup_def)

lemma view1_eval:
  "view1 =
     \<lparr>mapL = \<lparr>center = (207502 / 10000, 1147655 / 10000), zoom = 3, minZoom = Some 2,
               maxZoom = Some 18, layers = [TileLayer tile_url, MarkerLayer 0]\<rparr>,
      markers = [\<lparr>m_id = Some 25544, m_marker = 0\<rparr>], satelliteIndex = 0,
      heap = [iss_marker (satellite_icon False 0)]\<rparr>"
  by (simp add: view1_def add_view0)

lemma add_view1:
  "addSatellite False view1 iss =
     (Inr This,
      \<lparr>mapL = \<lparr>center = (207502 / 10000, 1147655 / 10000), zoom = 3, minZoom = Some 2,
                maxZoom = Some 18,
                layers = [TileLayer tile_url, MarkerLayer 0, MarkerLayer 1]\<rparr>,
       markers = [\<lparr>m_id = Some 25544, m_marker = 0\<rparr>, \<lparr>m_id = Some 25544, m_marker = 1\<rparr>],
       satelliteIndex = 0,
       heap = [iss_marker icons_dot, iss_marker (satellite_icon False 0)]\<rparr>)"
  by (simp add: view1_eval)
     (simp add: iss_def new_Satellite_def addSatellite_def replaceSatelliteWithDot_def
        setIcon_def addLayer_def popup_of_def toUpperCase_def toUpperCase_char_def
        bindPopup_def Let_def iss_marker_def iss_popup_def)

lemma view2_eval:
  "view2 =
     \<lparr>mapL = \<lparr>center = (207502 / 10000, 1147655 / 10000), zoom = 3, minZoom = Some 2,
               maxZoom = Some 18,
               layers = [TileLayer tile_url, MarkerLayer 0, MarkerLayer 1]\<rparr>,
      markers = [\<lparr>m_id = Some 25544, m_marker = 0\<rparr>, \<lparr>m_id = Some 25544, m_marker = 1\<rparr>],
      satelliteIndex = 0,
      heap = [iss_marker icons_dot, iss_marker (satellite_icon False 0)]\<rparr>"
  by (simp add: view2_def add_view1)

lemma add_view0_view1: "addSatellite False view0 iss = (Inr This, view1)"
  by (simp add: view1_def prod_eq_iff add_view0)

lemma add_view1_view2: "addSatellite False view1 iss = (Inr This, view2)"
  by (simp add: view2_def prod_eq_iff add_view1)

lemma add_calls_view2: "add_calls False view0 [iss, iss] = Some view2"
  by (simp add: add_view0_view1 add_view1_view2)

lemma ident_iss: "ident iss = Some 25544"
  by (simp add: iss_def new_Satellite_def)

lemma dot_is_not_satellite_icon: "satellite_icon g i \<noteq> icons_dot"
  by (simp add: satellite_icon_def icons_dot_def)

section \<open>Facts about the refresh timer\<close>

lemma ticks_of_setInterval:
  "ticks_of self (snd (setInterval T (Tick self m) ms)) =
     ticks_of self T @ [\<lparr>t_id = next_id T, t_callback = Tick self m, t_interval = ms\<rparr>]"
  by (simp add: ticks_of_def setInterval_def)

lemma fst_setInterval [simp]: "fst (setInterval T cb ms) = next_id T"
  by (simp add: setInterval_def)

lemma next_id_clearInterval [simp]: "next_id (clearInterval T h) = next_id T"
  by (simp add: clearInterval_def split: option.splits)

lemma ticks_of_clearInterval:
  "ticks_of self (clearInterval T h) =
     filter (\<lambda>t. Some (t_id t) \<noteq> h) (ticks_of self T)"
  by (cases h) (auto simp: ticks_of_def clearInterval_def intro: filter_cong)

lemma one_stream_clear:
  assumes "one_stream self (s, T)"
  shows "ticks_of self (clearInterval T (autoUpdater s)) = []"
  using assms
  by (auto simp: one_stream_def ticks_of_clearInterval filter_empty_conv list_all_iff)

lemma clearInterval_inactive:
  "h \<notin> t_id ` set (active (clearInterval T (Some h)))"
  by (auto simp: clearInterval_def)

lemma autoUpdate_start:
  assumes "1000 \<le> interval"
  shows "autoUpdate self (s, T) True interval (Some m) =
     (Inr This,
      (s\<lparr>autoUpdater := Some (next_id T)\<rparr>,
       snd (setInterval (clearInterval T (autoUpdater s)) (Tick self m) interval)))"
  using assms by (simp add: autoUpdate_def Let_def split: prod.splits) (simp add: setInterval_def)

lemma autoUpdate_stop:
  assumes "1000 \<le> interval"
  shows "autoUpdate self (s, T) False interval (Some m) =
     (Inr This, (s, clearInterval T (autoUpdater s)))"
  using assms by (simp add: autoUpdate_def Let_def)

lemma autoUpdate_throws:
  assumes "interval < 1000 \<or> view = None"
  shows "autoUpdate self st b interval view =
     (Inl (Error (if interval < 1000 then ''Interval must be at least 1000 milliseconds.''
                  else ''Map is not given.'')), st)"
  using assms by (auto simp: autoUpdate_def Let_def)

lemma autoUpdate_one_stream:
  assumes "one_stream self st"
  shows "one_stream self (snd (autoUpdate self st b interval view))"
proof (cases "interval < 1000 \<or> view = None")
  case True
  then show ?thesis using assms by (simp add: autoUpdate_throws)
next
  case False
  then obtain m where m: "view = Some m" and i: "1000 \<le> interval" by auto
  obtain s T where st: "st = (s, T)" by (cases st)
  have empty: "ticks_of self (clearInterval T (autoUpdater s)) = []"
    using assms unfolding st by (rule one_stream_clear)
  show ?thesis
  proof (cases b)
    case True
    then show ?thesis
      unfolding st m by (simp add: autoUpdate_start [OF i] one_stream_def ticks_of_setInterval empty)
  next
    case False
    then show ?thesis
      unfolding st m by (simp add: autoUpdate_stop [OF i] one_stream_def empty)
  qed
qed

lemma run_calls_one_stream:
  "one_stream self st \<Longrightarrow> one_stream self (run_calls self st cs)"
  by (induction cs arbitrary: st) (simp_all add: autoUpdate_one_stream)

subsection \<open>The concrete loops\<close>

lemma loop0_eval:
  "loop0 = (iss, \<lparr>next_id = 1, active = [\<lparr>t_id = 0, t_callback = Other, t_interval = 20\<rparr>]\<rparr>)"
  by (simp add: loop0_def timers0_def)

lemma autoUpdater_iss: "autoUpdater iss = None"
  by (simp add: iss_def new_Satellite_def)

lemma loop1_eval:
  "loop1 =
     (iss\<lparr>autoUpdater := Some 1\<rparr>,
      \<lparr>next_id = 2,
       active = [\<lparr>t_id = 0, t_callback = Other, t_interval = 20\<rparr>,
                 \<lparr>t_id = 1, t_callback = Tick 0 0, t_interval = 15000\<rparr>]\<rparr>)"
  by (simp add: loop1_def loop0_eval autoUpdate_start autoUpdater_iss clearInterval_def
      setInterval_def)

lemma loop2_eval:
  "loop2 =
     (iss\<lparr>autoUpdater := Some 2\<rparr>,
      \<lparr>next_id = 3,
       active = [\<lparr>t_id = 0, t_callback = Other, t_interval = 20\<rparr>,
                 \<lparr>t_id = 2, t_callback = Tick 0 0, t_interval = 5000\<rparr>]\<rparr>)"
  by (simp add: loop2_def loop1_eval autoUpdate_start clearInterval_def setInterval_def)

lemma one_stream_loop0: "one_stream 0 loop0"
  by (simp add: loop0_eval one_stream_def ticks_of_def)

section \<open>Facts about the fetcher\<close>

text \<open>What \<^verbatim>\<open>fetchSatellite\<close> hands back, by the kind of response.\<close>

lemma fetchSatellite_not_ok_returns:
  "\<not> ok r \<Longrightarrow> fst (fetchSatellite s (Response r)) = Inr Undefined"
  by (simp add: fetchSatellite_def)

lemma fetchSatellite_null_body_throws:
  "ok r \<Longrightarrow> body r = JsonNull \<Longrightarrow> fetchSatellite s (Response r) = (Inl TypeError, s)"
  by (simp add: fetchSatellite_def)

lemma fetchSatellite_ok_returns:
  "ok r \<Longrightarrow> body r = JsonObject json \<Longrightarrow> fst (fetchSatellite s (Response r)) = Inr This"
  by (simp add: fetchSatellite_def)

section \<open>The claims\<close>

subsection \<open>C1\<close>

text \<open>
  C1, as the claim puts it: after any sequence of \<^verbatim>\<open>addSatellite\<close> calls with one
  identifier the registry holds exactly one record of it, in dot form after any call
  beyond the first. Two calls on a fresh view already leave two records of the
  identifier, and the newer one carries the satellite icon, not the dot.
\<close>

theorem addSatellite_twice_two_records:
  "add_calls False view0 [iss, iss] = Some view2 \<and>
   length (records_of (ident iss) view2) = 2 \<and>
   icon_of view2 (last (records_of (ident iss) view2)) \<noteq> icons_dot"
proof (intro conjI)
  show "add_calls False view0 [iss, iss] = Some view2"
    by (rule add_calls_view2)
  show "length (records_of (ident iss) view2) = 2"
    by (simp add: view2_eval records_of_def ident_iss)
  show "icon_of view2 (last (records_of (ident iss) view2)) \<noteq> icons_dot"
    by (simp add: view2_eval records_of_def ident_iss icon_of_def iss_marker_def
        dot_is_not_satellite_icon)
qed

text \<open>
  C1, amended: \<^verbatim>\<open>addSatellite\<close> appends. Take a view whose records refer to markers
  of the store, as they do in every view the methods build. After \<open>n\<close> calls that
  return, all with the same identifier, the registry holds \<open>n\<close> more records of that
  identifier than before; the last record of the registry is the newest one and carries
  the satellite icon of the current icon index; every other record of that identifier
  carries the dot icon.
\<close>

theorem addSatellite_appends_and_demotes:
  assumes "handles_valid v" and "list_all (\<lambda>s. ident s = i) ss" and "add_calls g v ss = Some v'"
  shows "handles_valid v' \<and> satelliteIndex v' = satelliteIndex v \<and>
         length (records_of i v') = length (records_of i v) + length ss \<and>
         (ss \<noteq> [] \<longrightarrow>
            m_id (last (markers v')) = i \<and>
            icon_of v' (last (markers v')) = satellite_icon g (satelliteIndex v) \<and>
            list_all (\<lambda>r. m_id r = i \<longrightarrow> icon_of v' r = icons_dot) (butlast (markers v')))"
  using assms
proof (induction ss arbitrary: v)
  case Nil
  then show ?case by simp
next
  case (Cons s ss)
  from Cons.prems(3) obtain r v1 where
    step: "addSatellite g v s = (Inr r, v1)" and rest: "add_calls g v1 ss = Some v'"
    by (auto split: prod.splits sum.splits)
  have id_s: "ident s = i" and ids: "list_all (\<lambda>s. ident s = i) ss"
    using Cons.prems(2) by simp_all
  have valid1: "handles_valid v1"
    using step Cons.prems(1) by (rule addSatellite_Inr_valid)
  have mk1: "markers v1 = markers v @ [\<lparr>m_id = i, m_marker = length (heap v)\<rparr>]"
    using addSatellite_Inr_markers [OF step] id_s by simp
  have idx1: "satelliteIndex v1 = satelliteIndex v"
    using step by (rule addSatellite_Inr_index)
  have cnt1: "length (records_of i v1) = Suc (length (records_of i v))"
    by (simp add: records_of_def mk1)
  note IH = Cons.IH [OF valid1 ids rest]
  show ?case
  proof (cases "ss = []")
    case True
    then have v': "v' = v1" using rest by simp
    have last1: "last (markers v1) = \<lparr>m_id = i, m_marker = length (heap v)\<rparr>"
      by (simp add: mk1)
    have new: "icon_of v1 (last (markers v1)) = satellite_icon g (satelliteIndex v)"
      using addSatellite_Inr_new_icon [OF step] by (simp add: icon_of_def last1)
    have old: "list_all (\<lambda>r. m_id r = i \<longrightarrow> icon_of v1 r = icons_dot) (butlast (markers v1))"
      unfolding list_all_iff
    proof (intro ballI impI)
      fix r assume r: "r \<in> set (butlast (markers v1))" and "m_id r = i"
      then have rin: "r \<in> set (records_of (ident s) v)"
        by (simp add: mk1 records_of_def id_s)
      have "r \<in> set (markers v)" using r by (simp add: mk1)
      then have "m_marker r < length (heap v)"
        using Cons.prems(1) by (simp add: handles_valid_def list_all_iff)
      from addSatellite_Inr_old_icon [OF step this] rin
      show "icon_of v1 r = icons_dot" by (auto simp: icon_of_def)
    qed
    show ?thesis
      using True v' valid1 idx1 cnt1 last1 new old by simp
  next
    case False
    then show ?thesis
      using IH idx1 cnt1 by simp
  qed
qed

theorem addSatellite_appends_and_demotes_witness:
  "handles_valid view0 \<and> list_all (\<lambda>s. ident s = Some 25544) [iss, iss] \<and>
   add_calls False view0 [iss, iss] = Some view2 \<and>
   length (records_of (Some 25544) view2) = length (records_of (Some 25544) view0) + 2 \<and>
   icon_of view2 (last (markers view2)) = satellite_icon False 0 \<and>
   list_all (\<lambda>r. m_id r = Some 25544 \<longrightarrow> icon_of view2 r = icons_dot) (butlast (markers view2))"
proof -
  have valid: "handles_valid view0"
    by (simp add: view0_eval handles_valid_def)
  have ids: "list_all (\<lambda>s. ident s = Some 25544) [iss, iss]"
    by (simp add: ident_iss)
  have calls: "add_calls False view0 [iss, iss] = Some view2"
    by (rule add_calls_view2)
  have idx: "satelliteIndex view0 = 0"
    by (simp add: view0_eval)
  from addSatellite_appends_and_demotes [OF valid ids calls] idx
  have "length (records_of (Some 25544) view2) = length (records_of (Some 25544) view0) + 2 \<and>
        icon_of view2 (last (markers view2)) = satellite_icon False 0 \<and>
        list_all (\<lambda>r. m_id r = Some 25544 \<longrightarrow> icon_of view2 r = icons_dot)
          (butlast (markers view2))"
    by simp
  with valid ids calls show ?thesis by blast
qed

subsection \<open>C2\<close>

text \<open>
  C2 says that after a \<^verbatim>\<open>removeSatellite\<close> that returns, the registry has no record of
  the identifier and the widget no longer holds its visual. After two \<^verbatim>\<open>addSatellite\<close>
  calls for one satellite the registry has two records of it. \<^verbatim>\<open>removeSatellite\<close> then
  returns, having removed only the first of them, the older one in dot form: the second
  record is still in the registry, and its marker, with the satellite icon, is still a
  layer of the widget.
\<close>

theorem removeSatellite_leaves_later_records:
  "fst (removeSatellite view2 iss) = Inr This \<and>
   records_of (ident iss) (snd (removeSatellite view2 iss)) =
     [\<lparr>m_id = Some 25544, m_marker = 1\<rparr>] \<and>
   MarkerLayer 1 \<in> set (layers (mapL (snd (removeSatellite view2 iss)))) \<and>
   icon (heap (snd (removeSatellite view2 iss)) ! 1) = satellite_icon False 0"
  by (simp add: view2_eval ident_iss removeSatellite_def removeLayer_def splice1_def
      records_of_def iss_marker_def Let_def)

subsection \<open>C3\<close>

text \<open>
  C3 says that \<^verbatim>\<open>fetchSatellite\<close> returns the entity whether or not the status is a
  success. On a 404 the method sets the error fields and leaves through a bare
  \<^verbatim>\<open>return\<close>: the caller gets \<^verbatim>\<open>undefined\<close>, not the entity.
\<close>

theorem fetchSatellite_404_returns_undefined:
  "fst (fetchSatellite iss (Response not_found)) = Inr Undefined \<and>
   fst (fetchSatellite iss (Response not_found)) \<noteq> Inr This"
  by (simp add: fetchSatellite_def ok_def not_found_def)

subsection \<open>C4\<close>

text \<open>
  C4: on a response whose status is not a success, \<^verbatim>\<open>fetchSatellite\<close> sets the error
  fields to the response's status code and status text and leaves every other field of
  the satellite, the positional ones among them, as it was before the call.
\<close>

theorem fetchSatellite_failure_keeps_position:
  assumes "\<not> ok r"
  shows "snd (fetchSatellite s (Response r)) =
           s\<lparr>errorBool := Some True, errorCode := Some (status r),
             errorText := Some (statusText r)\<rparr> \<and>
         errorCode (snd (fetchSatellite s (Response r))) = Some (status r) \<and>
         errorText (snd (fetchSatellite s (Response r))) = Some (statusText r) \<and>
         latitude (snd (fetchSatellite s (Response r))) = latitude s \<and>
         longitude (snd (fetchSatellite s (Response r))) = longitude s \<and>
         altitude (snd (fetchSatellite s (Response r))) = altitude s \<and>
         velocity (snd (fetchSatellite s (Response r))) = velocity s \<and>
         timestamp (snd (fetchSatellite s (Response r))) = timestamp s \<and>
         ident (snd (fetchSatellite s (Response r))) = ident s \<and>
         name (snd (fetchSatellite s (Response r))) = name s \<and>
         daynum (snd (fetchSatellite s (Response r))) = daynum s \<and>
         footprint (snd (fetchSatellite s (Response r))) = footprint s \<and>
         solar_lat (snd (fetchSatellite s (Response r))) = solar_lat s \<and>
         solar_lon (snd (fetchSatellite s (Response r))) = solar_lon s \<and>
         units (snd (fetchSatellite s (Response r))) = units s \<and>
         visibility (snd (fetchSatellite s (Response r))) = visibility s \<and>
         fetchResponse (snd (fetchSatellite s (Response r))) = fetchResponse s"
  using assms by (simp add: fetchSatellite_def)

theorem fetchSatellite_failure_keeps_position_witness:
  "\<not> ok not_found \<and>
   latitude (snd (fetchSatellite iss (Response not_found))) = Some (512 / 10) \<and>
   errorCode (snd (fetchSatellite iss (Response not_found))) = Some 404 \<and>
   errorText (snd (fetchSatellite iss (Response not_found))) = Some ''Not Found''"
proof -
  have bad: "\<not> ok not_found"
    by (simp add: ok_def not_found_def)
  have lat: "latitude iss = Some (512 / 10)"
    by (simp add: iss_def)
  have st: "status not_found = 404" "statusText not_found = ''Not Found''"
    by (simp_all add: not_found_def)
  from fetchSatellite_failure_keeps_position [OF bad, of iss] bad lat st
  show ?thesis by simp
qed

subsection \<open>C5\<close>

text \<open>
  C5 says that \<^verbatim>\<open>zoomToSatellite\<close> fails with the not-found error when no record
  matches. The method has a guard for that, which throws
  \<^verbatim>\<open>Error('Satellite not found. Could not reposition map.')\<close>; but the guard's
  condition reads \<^verbatim>\<open>.marker\<close> of the missing record, so on a view without a record of
  the satellite the call throws a TypeError from inside the condition and the guard's
  error is never raised. The view is left as it was.
\<close>

theorem zoomToSatellite_absent_throws_TypeError:
  "zoomToSatellite view0 iss = (Inl TypeError, view0) \<and>
   fst (zoomToSatellite view0 iss) \<noteq>
     Inl (Error ''Satellite not found. Could not reposition map.'')"
  by (simp add: zoomToSatellite_def view0_eval)

subsection \<open>C6\<close>

text \<open>
  C6: with a view given, starting the loop (\<^verbatim>\<open>autoUpdate(true, interval, map)\<close>) throws
  exactly when the interval is below 1000, with the interval's error message and the state
  untouched; from 1000 on the call returns. So 500 is refused and 1000 is accepted.
\<close>

theorem start_refused_iff_below_1000:
  "((\<exists>e. fst (autoUpdate self st True interval (Some m)) = Inl e) = (interval < 1000)) \<and>
   (interval < 1000 \<longrightarrow>
      autoUpdate self st True interval (Some m) =
        (Inl (Error ''Interval must be at least 1000 milliseconds.''), st)) \<and>
   (1000 \<le> interval \<longrightarrow> fst (autoUpdate self st True interval (Some m)) = Inr This)"
  by (auto simp: autoUpdate_def Let_def split: prod.splits)

theorem start_refused_iff_below_1000_witness:
  "autoUpdate 0 loop0 True 500 (Some 0) =
     (Inl (Error ''Interval must be at least 1000 milliseconds.''), loop0) \<and>
   fst (autoUpdate 0 loop0 True 1000 (Some 0)) = Inr This"
  using start_refused_iff_below_1000 [of 0 loop0 500 0]
    start_refused_iff_below_1000 [of 0 loop0 1000 0]
  by simp

subsection \<open>C7\<close>

text \<open>
  C7: take a loop with at most one tick of its own, the one whose handle the satellite
  stores (a new satellite has none). Two starts in a row, each with an interval of at
  least 1000 and a view, both return. After the first, the satellite's only tick is the
  first timer. The second start clears that timer before it schedules its own: the table
  it schedules into holds no tick of the satellite, the first handle is no longer active
  afterwards, and the satellite's only tick is the second timer. Whatever calls to
  \<^verbatim>\<open>autoUpdate\<close> follow, the satellite never has more than one tick in the table.
\<close>

theorem restart_leaves_one_stream:
  assumes "one_stream self st" and "1000 \<le> i1" and "1000 \<le> i2"
    and "st1 = snd (autoUpdate self st True i1 (Some m1))"
    and "st2 = snd (autoUpdate self st1 True i2 (Some m2))"
  shows "fst (autoUpdate self st True i1 (Some m1)) = Inr This \<and>
         fst (autoUpdate self st1 True i2 (Some m2)) = Inr This \<and>
         autoUpdater (fst st1) = Some (next_id (snd st)) \<and>
         ticks_of self (snd st1) =
           [\<lparr>t_id = next_id (snd st), t_callback = Tick self m1, t_interval = i1\<rparr>] \<and>
         ticks_of self (clearInterval (snd st1) (autoUpdater (fst st1))) = [] \<and>
         snd st2 =
           snd (setInterval (clearInterval (snd st1) (autoUpdater (fst st1))) (Tick self m2) i2) \<and>
         next_id (snd st) \<notin> t_id ` set (active (snd st2)) \<and>
         autoUpdater (fst st2) = Some (next_id (snd st1)) \<and>
         ticks_of self (snd st2) =
           [\<lparr>t_id = next_id (snd st1), t_callback = Tick self m2, t_interval = i2\<rparr>] \<and>
         (\<forall>cs. length (ticks_of self (snd (run_calls self st cs))) \<le> 1)"
proof -
  obtain s T where st: "st = (s, T)" by (cases st)
  let ?T0 = "clearInterval T (autoUpdater s)"
  let ?T1 = "snd (setInterval ?T0 (Tick self m1) i1)"
  let ?s1 = "s\<lparr>autoUpdater := Some (next_id T)\<rparr>"
  have first: "autoUpdate self st True i1 (Some m1) = (Inr This, (?s1, ?T1))"
    using assms(2) by (simp add: st autoUpdate_start)
  then have st1: "st1 = (?s1, ?T1)"
    using assms(4) by simp
  let ?T1' = "clearInterval ?T1 (Some (next_id T))"
  let ?T2 = "snd (setInterval ?T1' (Tick self m2) i2)"
  have next1: "next_id ?T1 = Suc (next_id T)"
    by (simp add: setInterval_def)
  have second: "autoUpdate self st1 True i2 (Some m2) =
      (Inr This, (?s1\<lparr>autoUpdater := Some (next_id ?T1)\<rparr>, ?T2))"
    using assms(3) by (simp add: st1 autoUpdate_start)
  then have st2: "st2 = (?s1\<lparr>autoUpdater := Some (next_id ?T1)\<rparr>, ?T2)"
    using assms(5) by simp
  have empty0: "ticks_of self ?T0 = []"
    using assms(1) unfolding st by (rule one_stream_clear)
  have ticks1: "ticks_of self ?T1 =
      [\<lparr>t_id = next_id T, t_callback = Tick self m1, t_interval = i1\<rparr>]"
    by (simp add: ticks_of_setInterval empty0)
  have empty1: "ticks_of self ?T1' = []"
    by (simp add: ticks_of_clearInterval ticks1)
  have ticks2: "ticks_of self ?T2 =
      [\<lparr>t_id = next_id ?T1, t_callback = Tick self m2, t_interval = i2\<rparr>]"
    by (simp add: ticks_of_setInterval empty1)
  have gone: "next_id T \<notin> t_id ` set (active ?T2)"
    by (auto simp: setInterval_def clearInterval_def split: option.splits)
  have ever: "\<forall>cs. length (ticks_of self (snd (run_calls self st cs))) \<le> 1"
    using run_calls_one_stream [OF assms(1)] by (simp add: one_stream_def)
  show ?thesis
    using first second ticks1 empty1 gone ticks2 ever
    by (simp add: st st1 st2 del: One_nat_def)
qed

theorem restart_leaves_one_stream_witness:
  "one_stream 0 loop0 \<and> (1000::real) \<le> 15000 \<and> (1000::real) \<le> 5000 \<and>
   fst (autoUpdate 0 loop0 True 15000 (Some 0)) = Inr This \<and>
   fst (autoUpdate 0 loop1 True 5000 (Some 0)) = Inr This \<and>
   ticks_of 0 (snd loop1) = [\<lparr>t_id = 1, t_callback = Tick 0 0, t_interval = 15000\<rparr>] \<and>
   1 \<notin> t_id ` set (active (snd loop2)) \<and>
   ticks_of 0 (snd loop2) = [\<lparr>t_id = 2, t_callback = Tick 0 0, t_interval = 5000\<rparr>]"
proof -
  have i1: "(1000::real) \<le> 15000" and i2: "(1000::real) \<le> 5000" by simp_all
  have n0: "next_id (snd loop0) = 1" by (simp add: loop0_eval)
  have n1: "next_id (snd loop1) = 2" by (simp add: loop1_eval)
  note two_starts =
    restart_leaves_one_stream [OF one_stream_loop0 i1 i2 loop1_def loop2_def, unfolded n0 n1]
  from two_starts one_stream_loop0 i1 i2 show ?thesis by blast
qed

subsection \<open>C8\<close>

text \<open>
  C8, as the claim puts it: a stop cancels the active timer, if any, and leaves the loop
  stopped. The stop request is \<^verbatim>\<open>autoUpdate(false, interval, map)\<close>, and the two guards
  come before its stop branch. On a running loop, a stop request with the interval 500,
  or one without a view, throws: the timer is not cleared, the satellite's tick is still
  in the table and the loop is still running at 15000.
\<close>

theorem stop_request_can_leave_loop_running:
  "loop_state loop1 = Running 15000 \<and>
   fst (autoUpdate 0 loop1 False 500 (Some 0)) =
     Inl (Error ''Interval must be at least 1000 milliseconds.'') \<and>
   loop_state (snd (autoUpdate 0 loop1 False 500 (Some 0))) = Running 15000 \<and>
   ticks_of 0 (snd (snd (autoUpdate 0 loop1 False 500 (Some 0)))) =
     [\<lparr>t_id = 1, t_callback = Tick 0 0, t_interval = 15000\<rparr>] \<and>
   fst (autoUpdate 0 loop1 False 15000 None) = Inl (Error ''Map is not given.'') \<and>
   loop_state (snd (autoUpdate 0 loop1 False 15000 None)) = Running 15000"
proof -
  have running: "loop_state loop1 = Running 15000"
    by (simp add: loop1_eval loop_state_def)
  have ticks: "ticks_of 0 (snd loop1) = [\<lparr>t_id = 1, t_callback = Tick 0 0, t_interval = 15000\<rparr>]"
    by (simp add: loop1_eval ticks_of_def)
  have short: "autoUpdate 0 loop1 False 500 (Some 0) =
      (Inl (Error ''Interval must be at least 1000 milliseconds.''), loop1)"
    by (simp add: autoUpdate_throws)
  have missing: "autoUpdate 0 loop1 False 15000 None = (Inl (Error ''Map is not given.''), loop1)"
    by (simp add: autoUpdate_throws)
  show ?thesis
    by (simp add: short missing running ticks)
qed

text \<open>
  C8, amended: a stop request that passes the guards, that is
  \<^verbatim>\<open>autoUpdate(false, interval, map)\<close> with an interval of at least 1000 and a view,
  returns, clears the timer whose handle the satellite stores and leaves the loop stopped,
  with no tick of the satellite left when it had at most its own. The satellite itself is
  not changed. On a loop that is already stopped the call changes nothing at all, so a
  second stop is a no-op.
\<close>

theorem stop_cancels_and_is_idempotent:
  assumes "1000 \<le> interval" and "st' = snd (autoUpdate self st False interval (Some m))"
  shows "fst (autoUpdate self st False interval (Some m)) = Inr This \<and>
         fst st' = fst st \<and>
         snd st' = clearInterval (snd st) (autoUpdater (fst st)) \<and>
         (\<forall>h. autoUpdater (fst st) = Some h \<longrightarrow> h \<notin> t_id ` set (active (snd st'))) \<and>
         loop_state st' = Stopped \<and>
         (one_stream self st \<longrightarrow> ticks_of self (snd st') = []) \<and>
         (loop_state st = Stopped \<longrightarrow> st' = st) \<and>
         snd (autoUpdate self st' False interval (Some m)) = st'"
proof -
  obtain s T where st: "st = (s, T)" by (cases st)
  have st': "st' = (s, clearInterval T (autoUpdater s))"
    using assms by (simp add: st autoUpdate_stop)
  have ret: "fst (autoUpdate self st False interval (Some m)) = Inr This"
    using assms(1) by (simp add: st autoUpdate_stop)
  have gone: "\<forall>h. autoUpdater s = Some h \<longrightarrow>
                h \<notin> t_id ` set (active (clearInterval T (autoUpdater s)))"
    by (auto simp: clearInterval_def)
  have noop: "clearInterval U (autoUpdater s) = U" if "loop_state (s, U) = Stopped" for U
  proof (cases "autoUpdater s")
    case None
    then show ?thesis by (simp add: clearInterval_def)
  next
    case (Some h)
    with that have "find (\<lambda>t. t_id t = h) (active U) = None"
      by (simp add: loop_state_def split: option.splits)
    then have "filter (\<lambda>t. t_id t \<noteq> h) (active U) = active U"
      by (auto simp: find_None_iff filter_id_conv)
    then show ?thesis using Some by (simp add: clearInterval_def)
  qed
  have stopped: "loop_state st' = Stopped"
  proof (cases "autoUpdater s")
    case None
    then show ?thesis by (simp add: st' loop_state_def)
  next
    case (Some h)
    have "find (\<lambda>t. t_id t = h) (filter (\<lambda>t. t_id t \<noteq> h) (active T)) = None"
      by (auto simp: find_None_iff)
    then show ?thesis using Some by (simp add: st' loop_state_def clearInterval_def)
  qed
  have again: "snd (autoUpdate self st' False interval (Some m)) = st'"
    using noop [of "clearInterval T (autoUpdater s)"] stopped assms(1)
    by (simp add: st' autoUpdate_stop)
  have ticks: "one_stream self st \<longrightarrow> ticks_of self (snd st') = []"
    by (simp add: st st' one_stream_clear)
  have same: "loop_state st = Stopped \<longrightarrow> st' = st"
    using noop [of T] by (simp add: st st')
  show ?thesis
    using ret gone stopped again ticks same by (simp add: st st')
qed

theorem stop_cancels_and_is_idempotent_witness:
  "(1000::real) \<le> 15000 \<and>
   fst (autoUpdate 0 loop1 False 15000 (Some 0)) = Inr This \<and>
   loop_state loop1 = Running 15000 \<and>
   loop_state (snd (autoUpdate 0 loop1 False 15000 (Some 0))) = Stopped \<and>
   ticks_of 0 (snd (snd (autoUpdate 0 loop1 False 15000 (Some 0)))) = [] \<and>
   snd (autoUpdate 0 (snd (autoUpdate 0 loop1 False 15000 (Some 0))) False 15000 (Some 0)) =
     snd (autoUpdate 0 loop1 False 15000 (Some 0)) \<and>
   loop_state loop0 = Stopped \<and>
   snd (autoUpdate 0 loop0 False 15000 (Some 0)) = loop0"
proof -
  have i: "(1000::real) \<le> 15000" by simp
  have running: "loop_state loop1 = Running 15000"
    by (simp add: loop1_eval loop_state_def)
  have stopped0: "loop_state loop0 = Stopped"
    by (simp add: loop0_eval loop_state_def autoUpdater_iss)
  have inv1: "one_stream 0 loop1"
    by (simp add: loop1_eval one_stream_def ticks_of_def)
  note on_loop1 = stop_cancels_and_is_idempotent [OF i refl, of 0 loop1 0]
  note on_loop0 = stop_cancels_and_is_idempotent [OF i refl, of 0 loop0 0]
  from on_loop1 on_loop0 i running stopped0 inv1
  show ?thesis by blast
qed

subsection \<open>C9\<close>

text \<open>
  C9: a request to stop (\<^verbatim>\<open>autoUpdate(false, interval, map)\<close>) goes through the same two
  guards first. With an interval below 1000 or without a view it throws before the stop
  branch, and nothing is changed: a timer that was running is still running.
\<close>

theorem stop_request_still_guarded:
  assumes "interval < 1000 \<or> view = None"
  shows "autoUpdate self st False interval view =
     (Inl (Error (if interval < 1000 then ''Interval must be at least 1000 milliseconds.''
                  else ''Map is not given.'')), st)"
  using assms by (auto simp: autoUpdate_def Let_def)

theorem stop_request_still_guarded_witness:
  "((500::real) < 1000 \<or> Some (0::nat) = None) \<and>
   autoUpdate 0 loop1 False 500 (Some 0) =
     (Inl (Error ''Interval must be at least 1000 milliseconds.''), loop1) \<and>
   autoUpdate 0 loop1 False 15000 None = (Inl (Error ''Map is not given.''), loop1) \<and>
   loop_state loop1 = Running 15000"
proof -
  have running: "loop_state loop1 = Running 15000"
    by (simp add: loop1_eval loop_state_def)
  have short: "(500::real) < 1000 \<or> Some (0::nat) = None" by simp
  have missing: "(15000::real) < 1000 \<or> (None :: nat option) = None" by simp
  from stop_request_still_guarded [OF short, of 0 loop1]
    stop_request_still_guarded [OF missing, of 0 loop1] running
  show ?thesis by simp
qed

subsection \<open>C10\<close>

text \<open>
  C10: when no record of the registry carries the satellite's identifier,
  \<^verbatim>\<open>removeSatellite\<close> throws before it has changed anything: the registry, the widget's
  layers and the rest of the view are as they were before the call.
\<close>

theorem removeSatellite_absent_changes_nothing:
  assumes "ident s \<notin> m_id ` set (markers v)"
  shows "removeSatellite v s = (Inl TypeError, v)"
proof -
  have "find (\<lambda>m. m_id m = ident s) (markers v) = None"
    using assms by (force simp: find_None_iff image_iff)
  then show ?thesis
    by (simp add: removeSatellite_def)
qed

theorem removeSatellite_absent_changes_nothing_witness:
  "ident other_sat \<notin> m_id ` set (markers view2) \<and>
   removeSatellite view2 other_sat = (Inl TypeError, view2)"
proof -
  have absent: "ident other_sat \<notin> m_id ` set (markers view2)"
    by (simp add: view2_eval other_sat_def new_Satellite_def)
  from removeSatellite_absent_changes_nothing [OF absent] absent
  show ?thesis by blast
qed

end
